theory Spec2Isabelle
  imports Main
begin

section \<open>Python values used by the address book\<close>

text \<open>
  The two modules \<^verbatim>\<open>privo.py\<close> and \<^verbatim>\<open>telia.py\<close> implement the same address book.
  A Python \<^verbatim>\<open>str\<close> is modelled as a \<^typ>\<open>string\<close>; each \<^typ>\<open>char\<close> stands for one
  code point in the range 0..255, so \<^term>\<open>length\<close> is Python's \<^verbatim>\<open>len\<close> on such strings.
  Exceptions are values of the type \<open>error\<close>: the modules raise \<^verbatim>\<open>ValueError\<close> with a
  message, and deleting a missing dictionary key raises \<^verbatim>\<open>KeyError\<close>.
\<close>

datatype error = ValueError string | KeyError string

text \<open>
  \<^verbatim>\<open>str.isdigit()\<close> is true when the string is not empty and every character has the
  Unicode property Numeric_Type=Digit or Numeric_Type=Decimal. Among the code points
  below 256 these are \<^verbatim>\<open>0\<close>..\<^verbatim>\<open>9\<close> (48..57) and the superscripts two, three and one
  (U+00B2, U+00B3, U+00B9).
\<close>

definition isdigit_char :: "char \<Rightarrow> bool" where
  "isdigit_char c =
     (let n = (of_char c :: nat)
      in (48 \<le> n \<and> n \<le> 57) \<or> n = 178 \<or> n = 179 \<or> n = 185)"

definition isdigit :: "string \<Rightarrow> bool" where
  "isdigit s = (s \<noteq> [] \<and> list_all isdigit_char s)"

text \<open>\<^verbatim>\<open>sep.join(items)\<close>: the items with the separator between neighbours.\<close>

fun join :: "string \<Rightarrow> string list \<Rightarrow> string" where
  "join sep [] = []"
| "join sep [x] = x"
| "join sep (x # y # ys) = x @ sep @ join sep (y # ys)"

text \<open>The message of the error raised when a phone value is rejected.\<close>

abbreviation ValidationError :: error where
  "ValidationError \<equiv> ValueError ''Phone number must contain exactly 10 digits''"

text \<open>The errors raised by \<^verbatim>\<open>edit_phone\<close> when no phone matches, in each module.\<close>

abbreviation privo_NotFoundError :: "string \<Rightarrow> error" where
  "privo_NotFoundError old_phone \<equiv> ValueError (''Phone number '' @ old_phone @ '' not found'')"

abbreviation telia_NotFoundError :: "string \<Rightarrow> error" where
  "telia_NotFoundError old_phone \<equiv>
     ValueError (''Phone number '' @ old_phone @ '' not found in the record'')"


section \<open>Field, Name and Phone\<close>

text \<open>
  A \<^verbatim>\<open>Field\<close> object holds one string. \<^verbatim>\<open>Name\<close> and \<^verbatim>\<open>Phone\<close> are subclasses with the same
  single attribute. A method that mutates its object takes the object's state and returns
  the outcome (\<open>Inl\<close> the exception raised, \<open>Inr ()\<close> for a normal return) with the state
  the object has afterwards.
\<close>

record Field = "value" :: string

type_synonym Name = Field
type_synonym Phone = Field

definition Field_init :: "string \<Rightarrow> Field" where
  "Field_init v = \<lparr>value = v\<rparr>"

definition Field_str :: "Field \<Rightarrow> string" where
  "Field_str self = value self"

subsection \<open>Phone in privo.py: validation in the property setter\<close>

definition validate_phone :: "string \<Rightarrow> error + unit" where
  "validate_phone number =
     (if \<not> isdigit number \<or> length number \<noteq> 10 then Inl ValidationError else Inr ())"

definition privo_Phone_set_value :: "string \<Rightarrow> Phone \<Rightarrow> (error + unit) \<times> Phone" where
  "privo_Phone_set_value new_value self =
     (case validate_phone new_value of
        Inl e \<Rightarrow> (Inl e, self)
      | Inr _ \<Rightarrow> (Inr (), self\<lparr>value := new_value\<rparr>))"

text \<open>
  \<^verbatim>\<open>Field.__init__\<close> of privo.py first stores the empty string and then assigns through
  the property, which for a Phone is the validating setter. When the setter raises, the
  constructor raises and no object is returned.
\<close>

definition privo_Phone_init :: "string \<Rightarrow> error + Phone" where
  "privo_Phone_init v =
     (case privo_Phone_set_value v \<lparr>value = ''''\<rparr> of
        (Inl e, _) \<Rightarrow> Inl e
      | (Inr _, self) \<Rightarrow> Inr self)"

subsection \<open>Phone in telia.py: validation in the constructor only\<close>

definition telia_Phone_init :: "string \<Rightarrow> error + Phone" where
  "telia_Phone_init v =
     (if \<not> isdigit v \<or> length v \<noteq> 10 then Inl ValidationError else Inr (Field_init v))"

text \<open>In telia.py \<^verbatim>\<open>value\<close> is a plain attribute: assigning to it checks nothing.\<close>

definition telia_Phone_set_value :: "string \<Rightarrow> Phone \<Rightarrow> (error + unit) \<times> Phone" where
  "telia_Phone_set_value new_value self = (Inr (), self\<lparr>value := new_value\<rparr>)"


section \<open>Record\<close>

record Record =
  name :: Name
  phones :: "Phone list"

definition Record_init :: "string \<Rightarrow> Record" where
  "Record_init n = \<lparr>name = Field_init n, phones = []\<rparr>"

definition privo_add_phone :: "string \<Rightarrow> Record \<Rightarrow> (error + unit) \<times> Record" where
  "privo_add_phone phone self =
     (case privo_Phone_init phone of
        Inl e \<Rightarrow> (Inl e, self)
      | Inr p \<Rightarrow> (Inr (), self\<lparr>phones := phones self @ [p]\<rparr>))"

definition telia_add_phone :: "string \<Rightarrow> Record \<Rightarrow> (error + unit) \<times> Record" where
  "telia_add_phone phone self =
     (case telia_Phone_init phone of
        Inl e \<Rightarrow> (Inl e, self)
      | Inr p \<Rightarrow> (Inr (), self\<lparr>phones := phones self @ [p]\<rparr>))"

text \<open>\<^verbatim>\<open>remove_phone\<close> is the same list comprehension in both modules; nothing in it raises.\<close>

definition remove_phone :: "string \<Rightarrow> Record \<Rightarrow> (error + unit) \<times> Record" where
  "remove_phone phone self =
     (Inr (), self\<lparr>phones := [p \<leftarrow> phones self. value p \<noteq> phone]\<rparr>)"

text \<open>
  The loop of \<^verbatim>\<open>edit_phone\<close>: the phones are scanned in order; at the first one whose
  value equals \<^verbatim>\<open>old_phone\<close> the value is assigned and the method returns (or the
  assignment raises); when the scan ends the method raises. The loop returns the phone
  objects as they are afterwards.
\<close>

fun privo_edit_phone_loop ::
  "string \<Rightarrow> string \<Rightarrow> Phone list \<Rightarrow> (error + unit) \<times> Phone list" where
  "privo_edit_phone_loop old_phone new_phone [] = (Inl (privo_NotFoundError old_phone), [])"
| "privo_edit_phone_loop old_phone new_phone (phone # rest) =
     (if value phone = old_phone
      then (case privo_Phone_set_value new_phone phone of (r, phone') \<Rightarrow> (r, phone' # rest))
      else (case privo_edit_phone_loop old_phone new_phone rest of
              (r, rest') \<Rightarrow> (r, phone # rest')))"

definition privo_edit_phone :: "string \<Rightarrow> string \<Rightarrow> Record \<Rightarrow> (error + unit) \<times> Record" where
  "privo_edit_phone old_phone new_phone self =
     (case privo_edit_phone_loop old_phone new_phone (phones self) of
        (r, ps) \<Rightarrow> (r, self\<lparr>phones := ps\<rparr>))"

fun telia_edit_phone_loop ::
  "string \<Rightarrow> string \<Rightarrow> Phone list \<Rightarrow> (error + unit) \<times> Phone list" where
  "telia_edit_phone_loop old_phone new_phone [] = (Inl (telia_NotFoundError old_phone), [])"
| "telia_edit_phone_loop old_phone new_phone (phone # rest) =
     (if value phone = old_phone
      then (case telia_Phone_set_value new_phone phone of (r, phone') \<Rightarrow> (r, phone' # rest))
      else (case telia_edit_phone_loop old_phone new_phone rest of
              (r, rest') \<Rightarrow> (r, phone # rest')))"

definition telia_edit_phone :: "string \<Rightarrow> string \<Rightarrow> Record \<Rightarrow> (error + unit) \<times> Record" where
  "telia_edit_phone old_phone new_phone self =
     (case telia_edit_phone_loop old_phone new_phone (phones self) of
        (r, ps) \<Rightarrow> (r, self\<lparr>phones := ps\<rparr>))"

fun find_phone_loop :: "string \<Rightarrow> Phone list \<Rightarrow> Phone option" where
  "find_phone_loop phone [] = None"
| "find_phone_loop phone (p # rest) =
     (if value p = phone then Some p else find_phone_loop phone rest)"

definition find_phone :: "string \<Rightarrow> Record \<Rightarrow> Phone option" where
  "find_phone phone self = find_phone_loop phone (phones self)"

definition Record_str :: "Record \<Rightarrow> string" where
  "Record_str self =
     ''Contact name: '' @ value (name self) @ '', phones: ''
       @ join ''; '' (map value (phones self))"


section \<open>AddressBook\<close>

text \<open>
  A Record is a mutable object that the caller and the book both refer to, so Records
  live in a store, addressed by references, and the dictionary \<^verbatim>\<open>data\<close> of the book maps
  a name to a reference. A method called through a reference updates the store at that
  reference.
\<close>

type_synonym ref = nat
type_synonym store = "ref \<Rightarrow> Record"
type_synonym AddressBook = "string \<rightharpoonup> ref"

definition call_method ::
  "ref \<Rightarrow> (Record \<Rightarrow> (error + unit) \<times> Record) \<Rightarrow> store \<Rightarrow> (error + unit) \<times> store" where
  "call_method r m s = (case m (s r) of (res, rec') \<Rightarrow> (res, s(r := rec')))"

definition add_record :: "ref \<Rightarrow> store \<Rightarrow> AddressBook \<Rightarrow> AddressBook" where
  "add_record record s self = self(value (name (s record)) \<mapsto> record)"

definition AddressBook_find :: "string \<Rightarrow> AddressBook \<Rightarrow> ref option" where
  "AddressBook_find n self = self n"

text \<open>\<^verbatim>\<open>del d[k]\<close> raises \<^verbatim>\<open>KeyError\<close> when the key is missing.\<close>

definition dict_delitem :: "string \<Rightarrow> AddressBook \<Rightarrow> (error + unit) \<times> AddressBook" where
  "dict_delitem k d =
     (case d k of None \<Rightarrow> (Inl (KeyError k), d) | Some _ \<Rightarrow> (Inr (), d(k := None)))"

definition delete :: "string \<Rightarrow> AddressBook \<Rightarrow> (error + unit) \<times> AddressBook" where
  "delete n self = (if self n \<noteq> None then dict_delitem n self else (Inr (), self))"



section \<open>The specification's wording\<close>

text \<open>
  The phone rule as the specification words it: exactly 10 characters, every one of
  them a decimal digit \<^verbatim>\<open>0\<close>..\<^verbatim>\<open>9\<close>.
\<close>

definition ascii_digit :: "char \<Rightarrow> bool" where
  "ascii_digit c = (c \<in> set ''0123456789'')"

definition ten_decimal_digits :: "string \<Rightarrow> bool" where
  "ten_decimal_digits s = (length s = 10 \<and> list_all ascii_digit s)"

text \<open>
  The specification's rendering of the phone values: the first value, and every later
  value preceded by the separator.
\<close>

definition join_spec :: "string \<Rightarrow> string list \<Rightarrow> string" where
  "join_spec sep xs =
     (case xs of [] \<Rightarrow> [] | x # rest \<Rightarrow> x @ concat (map (\<lambda>y. sep @ y) rest))"

text \<open>
  The specification's edit: the entries before the first one whose value is \<open>old\<close>
  stay, that entry gets the value \<open>new\<close>, the entries after it stay.
\<close>

definition replace_first :: "string \<Rightarrow> string \<Rightarrow> Phone list \<Rightarrow> Phone list" where
  "replace_first old new ps =
     takeWhile (\<lambda>p. value p \<noteq> old) ps
       @ \<lparr>value = new\<rparr> # tl (dropWhile (\<lambda>p. value p \<noteq> old) ps)"

text \<open>
  What a caller sees of the Record that \<^verbatim>\<open>find\<close> returns: the state, in the store \<open>s\<close>,
  of the object the returned reference points to.
\<close>

definition found :: "string \<Rightarrow> AddressBook \<Rightarrow> store \<Rightarrow> Record option" where
  "found n book s = map_option s (AddressBook_find n book)"

text \<open>Every phone of a Record passes the check that the Phone classes make.\<close>

definition phones_accepted :: "Record \<Rightarrow> bool" where
  "phones_accepted r = list_all (\<lambda>p. isdigit (value p) \<and> length (value p) = 10) (phones r)"


section \<open>Phone validation\<close>

lemma of_char_nat_eq_iff: "(of_char c = (of_char d :: nat)) = (c = d)"
  by simp

text \<open>The characters that \<open>isdigit_char\<close> accepts, listed.\<close>

lemma isdigit_char_iff:
  "isdigit_char c \<longleftrightarrow> ascii_digit c \<or> c = CHR 0xB2 \<or> c = CHR 0xB3 \<or> c = CHR 0xB9"
proof -
  define n :: nat where "n = of_char c"
  have range: "(48 \<le> n \<and> n \<le> 57) \<longleftrightarrow>
      n = 48 \<or> n = 49 \<or> n = 50 \<or> n = 51 \<or> n = 52 \<or> n = 53 \<or> n = 54 \<or> n = 55
        \<or> n = 56 \<or> n = 57"
    by arith
  have pt: "\<And>d. (n = of_char d) = (c = d)"
    unfolding n_def by (rule of_char_nat_eq_iff)
  have digits:
    "n = 48 \<longleftrightarrow> c = CHR ''0''" "n = 49 \<longleftrightarrow> c = CHR ''1''" "n = 50 \<longleftrightarrow> c = CHR ''2''"
    "n = 51 \<longleftrightarrow> c = CHR ''3''" "n = 52 \<longleftrightarrow> c = CHR ''4''" "n = 53 \<longleftrightarrow> c = CHR ''5''"
    "n = 54 \<longleftrightarrow> c = CHR ''6''" "n = 55 \<longleftrightarrow> c = CHR ''7''" "n = 56 \<longleftrightarrow> c = CHR ''8''"
    "n = 57 \<longleftrightarrow> c = CHR ''9''" "n = 178 \<longleftrightarrow> c = CHR 0xB2" "n = 179 \<longleftrightarrow> c = CHR 0xB3"
    "n = 185 \<longleftrightarrow> c = CHR 0xB9"
    using pt [of "CHR ''0''"] pt [of "CHR ''1''"] pt [of "CHR ''2''"] pt [of "CHR ''3''"]
      pt [of "CHR ''4''"] pt [of "CHR ''5''"] pt [of "CHR ''6''"] pt [of "CHR ''7''"]
      pt [of "CHR ''8''"] pt [of "CHR ''9''"] pt [of "CHR 0xB2"] pt [of "CHR 0xB3"]
      pt [of "CHR 0xB9"]
    by simp_all
  have "isdigit_char c \<longleftrightarrow> (48 \<le> n \<and> n \<le> 57) \<or> n = 178 \<or> n = 179 \<or> n = 185"
    by (simp add: isdigit_char_def n_def Let_def)
  also have "\<dots> \<longleftrightarrow> ascii_digit c \<or> c = CHR 0xB2 \<or> c = CHR 0xB3 \<or> c = CHR 0xB9"
    unfolding range digits ascii_digit_def by auto
  finally show ?thesis .
qed

lemma accepted_character_class:
  "isdigit s \<and> length s = 10 \<longleftrightarrow>
     length s = 10 \<and>
     list_all (\<lambda>c. ascii_digit c \<or> c = CHR 0xB2 \<or> c = CHR 0xB3 \<or> c = CHR 0xB9) s"
  unfolding isdigit_def list_all_iff by (auto simp: isdigit_char_iff)

lemma ten_decimal_digits_accepted:
  "ten_decimal_digits s \<Longrightarrow> isdigit s \<and> length s = 10"
  unfolding ten_decimal_digits_def accepted_character_class list_all_iff by auto

lemma validate_phone_eq:
  "validate_phone s = (if isdigit s \<and> length s = 10 then Inr () else Inl ValidationError)"
  by (simp add: validate_phone_def)

lemma privo_Phone_set_value_eq:
  "privo_Phone_set_value s p =
     (if isdigit s \<and> length s = 10 then (Inr (), p\<lparr>value := s\<rparr>)
      else (Inl ValidationError, p))"
  by (simp add: privo_Phone_set_value_def validate_phone_eq)

lemma privo_Phone_init_eq:
  "privo_Phone_init s =
     (if isdigit s \<and> length s = 10 then Inr \<lparr>value = s\<rparr> else Inl ValidationError)"
  by (simp add: privo_Phone_init_def privo_Phone_set_value_eq)

lemma telia_Phone_init_eq:
  "telia_Phone_init s =
     (if isdigit s \<and> length s = 10 then Inr \<lparr>value = s\<rparr> else Inl ValidationError)"
  by (auto simp add: telia_Phone_init_def Field_init_def)



section \<open>Constructing a Phone and setting its value\<close>

text \<open>
  C3, as the code has it. Constructing a Phone from \<open>s\<close>, in either module, and setting
  the value of a privo.py Phone to \<open>s\<close>, raises the validation error exactly when \<open>s\<close> is
  not a string of 10 characters that \<^verbatim>\<open>str.isdigit\<close> accepts, and otherwise stores \<open>s\<close>
  verbatim; a rejected assignment leaves the Phone as it was. The accepted characters are
  \<^verbatim>\<open>0\<close>..\<^verbatim>\<open>9\<close> and, among the code points below 256, the superscript digits U+00B2,
  U+00B3 and U+00B9. Nothing is said here about assigning to the value of a telia.py
  Phone.
\<close>

theorem Phone_rejected_iff_not_accepted:
  "(privo_Phone_init s = Inl ValidationError \<longleftrightarrow> \<not> (isdigit s \<and> length s = 10)) \<and>
   (privo_Phone_init s = Inr \<lparr>value = s\<rparr> \<longleftrightarrow> isdigit s \<and> length s = 10) \<and>
   (telia_Phone_init s = Inl ValidationError \<longleftrightarrow> \<not> (isdigit s \<and> length s = 10)) \<and>
   (telia_Phone_init s = Inr \<lparr>value = s\<rparr> \<longleftrightarrow> isdigit s \<and> length s = 10) \<and>
   (privo_Phone_set_value s p = (Inl ValidationError, p) \<longleftrightarrow> \<not> (isdigit s \<and> length s = 10)) \<and>
   (privo_Phone_set_value s p = (Inr (), \<lparr>value = s\<rparr>) \<longleftrightarrow> isdigit s \<and> length s = 10) \<and>
   (isdigit s \<and> length s = 10 \<longleftrightarrow>
      length s = 10 \<and>
      list_all (\<lambda>c. ascii_digit c \<or> c = CHR 0xB2 \<or> c = CHR 0xB3 \<or> c = CHR 0xB9) s)"
  using accepted_character_class [of s]
  by (simp add: privo_Phone_init_eq telia_Phone_init_eq privo_Phone_set_value_eq)

theorem Phone_rejected_iff_not_accepted_witness:
  "privo_Phone_init ''0981234567'' = Inr \<lparr>value = ''0981234567''\<rparr> \<and>
   telia_Phone_init ''0981234567'' = Inr \<lparr>value = ''0981234567''\<rparr> \<and>
   privo_Phone_set_value ''0981234567'' \<lparr>value = ''0509876543''\<rparr>
     = (Inr (), \<lparr>value = ''0981234567''\<rparr>) \<and>
   privo_Phone_init ''12345'' = Inl ValidationError \<and>
   telia_Phone_init ''12345'' = Inl ValidationError \<and>
   privo_Phone_set_value ''12345'' \<lparr>value = ''0509876543''\<rparr>
     = (Inl ValidationError, \<lparr>value = ''0509876543''\<rparr>)"
proof -
  have ok: "isdigit ''0981234567'' \<and> length ''0981234567'' = 10"
    by (simp add: isdigit_def isdigit_char_def)
  have bad: "\<not> (isdigit ''12345'' \<and> length ''12345'' = 10)"
    by simp
  show ?thesis
    using ok bad
      Phone_rejected_iff_not_accepted [of "''0981234567''" "\<lparr>value = ''0509876543''\<rparr>"]
      Phone_rejected_iff_not_accepted [of "''12345''" "\<lparr>value = ''0509876543''\<rparr>"]
    by blast
qed

text \<open>
  Ten superscript twos are not ten decimal digits \<^verbatim>\<open>0\<close>..\<^verbatim>\<open>9\<close>, and both constructors
  and the privo.py setter accept them.
\<close>

theorem superscript_digits_accepted:
  "ten_decimal_digits
     [CHR 0xB2, CHR 0xB2, CHR 0xB2, CHR 0xB2, CHR 0xB2,
      CHR 0xB2, CHR 0xB2, CHR 0xB2, CHR 0xB2, CHR 0xB2] = False \<and>
   privo_Phone_init
     [CHR 0xB2, CHR 0xB2, CHR 0xB2, CHR 0xB2, CHR 0xB2,
      CHR 0xB2, CHR 0xB2, CHR 0xB2, CHR 0xB2, CHR 0xB2]
     = Inr \<lparr>value = [CHR 0xB2, CHR 0xB2, CHR 0xB2, CHR 0xB2, CHR 0xB2,
                     CHR 0xB2, CHR 0xB2, CHR 0xB2, CHR 0xB2, CHR 0xB2]\<rparr> \<and>
   telia_Phone_init
     [CHR 0xB2, CHR 0xB2, CHR 0xB2, CHR 0xB2, CHR 0xB2,
      CHR 0xB2, CHR 0xB2, CHR 0xB2, CHR 0xB2, CHR 0xB2]
     = Inr \<lparr>value = [CHR 0xB2, CHR 0xB2, CHR 0xB2, CHR 0xB2, CHR 0xB2,
                     CHR 0xB2, CHR 0xB2, CHR 0xB2, CHR 0xB2, CHR 0xB2]\<rparr> \<and>
   privo_Phone_set_value
     [CHR 0xB2, CHR 0xB2, CHR 0xB2, CHR 0xB2, CHR 0xB2,
      CHR 0xB2, CHR 0xB2, CHR 0xB2, CHR 0xB2, CHR 0xB2] \<lparr>value = ''0509876543''\<rparr>
     = (Inr (), \<lparr>value = [CHR 0xB2, CHR 0xB2, CHR 0xB2, CHR 0xB2, CHR 0xB2,
                           CHR 0xB2, CHR 0xB2, CHR 0xB2, CHR 0xB2, CHR 0xB2]\<rparr>)"
  by (simp add: ten_decimal_digits_def ascii_digit_def privo_Phone_init_eq telia_Phone_init_eq
      privo_Phone_set_value_eq isdigit_def isdigit_char_def)


section \<open>Editing a phone\<close>

lemma privo_loop_absent:
  "old \<notin> value ` set ps \<Longrightarrow>
     privo_edit_phone_loop old new ps = (Inl (privo_NotFoundError old), ps)"
  by (induction ps) auto

lemma telia_loop_absent:
  "old \<notin> value ` set ps \<Longrightarrow>
     telia_edit_phone_loop old new ps = (Inl (telia_NotFoundError old), ps)"
  by (induction ps) auto

lemma privo_loop_present_valid:
  "old \<in> value ` set ps \<Longrightarrow> isdigit new \<and> length new = 10 \<Longrightarrow>
     privo_edit_phone_loop old new ps = (Inr (), replace_first old new ps)"
  by (induction ps) (auto simp: privo_Phone_set_value_eq replace_first_def)

lemma privo_loop_present_invalid:
  "old \<in> value ` set ps \<Longrightarrow> \<not> (isdigit new \<and> length new = 10) \<Longrightarrow>
     privo_edit_phone_loop old new ps = (Inl ValidationError, ps)"
  by (induction ps) (auto simp: privo_Phone_set_value_eq)

lemma telia_loop_present:
  "old \<in> value ` set ps \<Longrightarrow>
     telia_edit_phone_loop old new ps = (Inr (), replace_first old new ps)"
  by (induction ps) (auto simp: telia_Phone_set_value_def replace_first_def)

text \<open>
  Both errors are a \<^verbatim>\<open>ValueError\<close>; the message tells a missing phone from a rejected
  value, whatever the phone asked for.
\<close>

lemma not_found_is_not_validation_error:
  "privo_NotFoundError old \<noteq> ValidationError \<and> telia_NotFoundError old \<noteq> ValidationError"
proof -
  have "last (old @ '' not found'') \<noteq> last ''must contain exactly 10 digits''"
    by simp
  then have a: "old @ '' not found'' \<noteq> ''must contain exactly 10 digits''"
    by metis
  have "last (old @ '' not found in the record'') \<noteq> last ''must contain exactly 10 digits''"
    by simp
  then have b: "old @ '' not found in the record'' \<noteq> ''must contain exactly 10 digits''"
    by metis
  show ?thesis using a b by simp
qed

text \<open>
  In privo.py an edit to a value that the Phone check rejects raises the validation
  error and leaves the Record as it was.
\<close>

lemma privo_edit_phone_invalid_new:
  "old \<in> value ` set (phones r) \<Longrightarrow> \<not> (isdigit new \<and> length new = 10) \<Longrightarrow>
     privo_edit_phone old new r = (Inl ValidationError, r)"
  by (simp add: privo_edit_phone_def privo_loop_present_invalid)

text \<open>
  C4. When no phone of the Record has the value \<open>old\<close>, \<^verbatim>\<open>edit_phone\<close> raises the
  not-found error and the Record is unchanged. When some phone has it and \<open>new\<close> passes
  the Phone check, the first such phone in list order gets the value \<open>new\<close> and every
  other entry stays where it was. Both modules.
\<close>

theorem edit_phone_first_match_or_not_found:
  "(old \<notin> value ` set (phones r) \<longrightarrow>
      privo_edit_phone old new r = (Inl (privo_NotFoundError old), r) \<and>
      telia_edit_phone old new r = (Inl (telia_NotFoundError old), r)) \<and>
   (old \<in> value ` set (phones r) \<and> isdigit new \<and> length new = 10 \<longrightarrow>
      privo_edit_phone old new r
        = (Inr (), r\<lparr>phones := replace_first old new (phones r)\<rparr>) \<and>
      telia_edit_phone old new r
        = (Inr (), r\<lparr>phones := replace_first old new (phones r)\<rparr>))"
  by (simp add: privo_edit_phone_def telia_edit_phone_def privo_loop_absent telia_loop_absent
      privo_loop_present_valid telia_loop_present)

theorem edit_phone_first_match_or_not_found_witness:
  "privo_edit_phone ''0981234567'' ''0631112233''
      \<lparr>name = \<lparr>value = ''Andriy''\<rparr>,
       phones = [\<lparr>value = ''0509876543''\<rparr>, \<lparr>value = ''0981234567''\<rparr>,
                 \<lparr>value = ''0981234567''\<rparr>]\<rparr>
     = (Inr (), \<lparr>name = \<lparr>value = ''Andriy''\<rparr>,
                 phones = [\<lparr>value = ''0509876543''\<rparr>, \<lparr>value = ''0631112233''\<rparr>,
                           \<lparr>value = ''0981234567''\<rparr>]\<rparr>) \<and>
   telia_edit_phone ''0981234567'' ''0631112233''
      \<lparr>name = \<lparr>value = ''Andriy''\<rparr>,
       phones = [\<lparr>value = ''0509876543''\<rparr>, \<lparr>value = ''0981234567''\<rparr>,
                 \<lparr>value = ''0981234567''\<rparr>]\<rparr>
     = (Inr (), \<lparr>name = \<lparr>value = ''Andriy''\<rparr>,
                 phones = [\<lparr>value = ''0509876543''\<rparr>, \<lparr>value = ''0631112233''\<rparr>,
                           \<lparr>value = ''0981234567''\<rparr>]\<rparr>) \<and>
   privo_edit_phone ''0675554433'' ''0631112233''
      \<lparr>name = \<lparr>value = ''Andriy''\<rparr>, phones = [\<lparr>value = ''0509876543''\<rparr>]\<rparr>
     = (Inl (privo_NotFoundError ''0675554433''),
        \<lparr>name = \<lparr>value = ''Andriy''\<rparr>, phones = [\<lparr>value = ''0509876543''\<rparr>]\<rparr>) \<and>
   telia_edit_phone ''0675554433'' ''0631112233''
      \<lparr>name = \<lparr>value = ''Andriy''\<rparr>, phones = [\<lparr>value = ''0509876543''\<rparr>]\<rparr>
     = (Inl (telia_NotFoundError ''0675554433''),
        \<lparr>name = \<lparr>value = ''Andriy''\<rparr>, phones = [\<lparr>value = ''0509876543''\<rparr>]\<rparr>)"
proof -
  have ok: "isdigit ''0631112233'' \<and> length ''0631112233'' = 10"
    by (simp add: isdigit_def isdigit_char_def)
  show ?thesis
    using ok
      edit_phone_first_match_or_not_found [of "''0981234567''"
        "\<lparr>name = \<lparr>value = ''Andriy''\<rparr>,
          phones = [\<lparr>value = ''0509876543''\<rparr>, \<lparr>value = ''0981234567''\<rparr>,
                    \<lparr>value = ''0981234567''\<rparr>]\<rparr>" "''0631112233''"]
      edit_phone_first_match_or_not_found [of "''0675554433''"
        "\<lparr>name = \<lparr>value = ''Andriy''\<rparr>, phones = [\<lparr>value = ''0509876543''\<rparr>]\<rparr>"
        "''0631112233''"]
    by (simp add: replace_first_def)
qed



text \<open>
  C2 says that an edit to an invalid new value raises the validation error and leaves
  the phone at \<open>old\<close>. The \<^verbatim>\<open>edit_phone\<close> of telia.py, asked to change a phone of Michael
  to \<^verbatim>\<open>abc\<close>, returns normally and the phone now holds \<^verbatim>\<open>abc\<close>; the \<^verbatim>\<open>edit_phone\<close> of
  privo.py raises on the same call and changes nothing.
\<close>

theorem telia_edit_phone_invalid_new_succeeds:
  "telia_edit_phone ''3805551234'' ''abc''
      \<lparr>name = \<lparr>value = ''Michael''\<rparr>,
       phones = [\<lparr>value = ''3805551234''\<rparr>, \<lparr>value = ''3805559876''\<rparr>]\<rparr>
     = (Inr (), \<lparr>name = \<lparr>value = ''Michael''\<rparr>,
                 phones = [\<lparr>value = ''abc''\<rparr>, \<lparr>value = ''3805559876''\<rparr>]\<rparr>) \<and>
   privo_edit_phone ''3805551234'' ''abc''
      \<lparr>name = \<lparr>value = ''Michael''\<rparr>,
       phones = [\<lparr>value = ''3805551234''\<rparr>, \<lparr>value = ''3805559876''\<rparr>]\<rparr>
     = (Inl ValidationError,
        \<lparr>name = \<lparr>value = ''Michael''\<rparr>,
         phones = [\<lparr>value = ''3805551234''\<rparr>, \<lparr>value = ''3805559876''\<rparr>]\<rparr>)"
  by (simp add: telia_edit_phone_def telia_Phone_set_value_def privo_edit_phone_def
      privo_Phone_set_value_eq)

theorem telia_edit_phone_invalid_new_succeeds_witness:
  "fst (telia_edit_phone ''3805551234'' ''abc''
      \<lparr>name = \<lparr>value = ''Michael''\<rparr>,
       phones = [\<lparr>value = ''3805551234''\<rparr>, \<lparr>value = ''3805559876''\<rparr>]\<rparr>) = Inr () \<and>
   map value (phones (snd (telia_edit_phone ''3805551234'' ''abc''
      \<lparr>name = \<lparr>value = ''Michael''\<rparr>,
       phones = [\<lparr>value = ''3805551234''\<rparr>, \<lparr>value = ''3805559876''\<rparr>]\<rparr>)))
     = [''abc'', ''3805559876''] \<and>
   fst (privo_edit_phone ''3805551234'' ''abc''
      \<lparr>name = \<lparr>value = ''Michael''\<rparr>,
       phones = [\<lparr>value = ''3805551234''\<rparr>, \<lparr>value = ''3805559876''\<rparr>]\<rparr>)
     = Inl ValidationError \<and>
   map value (phones (snd (privo_edit_phone ''3805551234'' ''abc''
      \<lparr>name = \<lparr>value = ''Michael''\<rparr>,
       phones = [\<lparr>value = ''3805551234''\<rparr>, \<lparr>value = ''3805559876''\<rparr>]\<rparr>)))
     = [''3805551234'', ''3805559876'']"
  using telia_edit_phone_invalid_new_succeeds by simp


section \<open>The phones a Record holds\<close>

text \<open>
  In privo.py, every way of changing a Record or a Phone keeps the phones within what
  the Phone check accepts; so do the constructor and \<^verbatim>\<open>add_phone\<close> of telia.py.
\<close>

lemma in_set_tl: "x \<in> set (tl xs) \<Longrightarrow> x \<in> set xs"
  by (cases xs) auto

lemma replace_first_list_all:
  "list_all P ps \<Longrightarrow> P \<lparr>value = new\<rparr> \<Longrightarrow> list_all P (replace_first old new ps)"
  unfolding replace_first_def list_all_iff
  by (auto dest: set_takeWhileD in_set_tl set_dropWhileD)

lemma Record_init_accepted: "phones_accepted (Record_init n)"
  by (simp add: phones_accepted_def Record_init_def)

lemma privo_Phone_set_value_accepted:
  "isdigit (value p) \<and> length (value p) = 10 \<Longrightarrow>
     isdigit (value (snd (privo_Phone_set_value new p))) \<and>
     length (value (snd (privo_Phone_set_value new p))) = 10"
  by (simp add: privo_Phone_set_value_eq)

lemma privo_add_phone_accepted:
  "phones_accepted r \<Longrightarrow> phones_accepted (snd (privo_add_phone raw r))"
  by (simp add: phones_accepted_def privo_add_phone_def privo_Phone_init_eq)

lemma telia_add_phone_accepted:
  "phones_accepted r \<Longrightarrow> phones_accepted (snd (telia_add_phone raw r))"
  by (simp add: phones_accepted_def telia_add_phone_def telia_Phone_init_eq)

lemma remove_phone_accepted:
  "phones_accepted r \<Longrightarrow> phones_accepted (snd (remove_phone raw r))"
  by (simp add: phones_accepted_def remove_phone_def list_all_iff)

lemma privo_edit_phone_accepted:
  assumes acc: "phones_accepted r"
  shows "phones_accepted (snd (privo_edit_phone old new r))"
proof (cases "old \<in> value ` set (phones r)")
  case False
  with acc show ?thesis
    by (simp add: privo_edit_phone_def privo_loop_absent)
next
  case present: True
  show ?thesis
  proof (cases "isdigit new \<and> length new = 10")
    case True
    with present acc show ?thesis
      by (simp add: privo_edit_phone_def privo_loop_present_valid phones_accepted_def
          replace_first_list_all)
  next
    case False
    with present acc show ?thesis
      by (simp add: privo_edit_phone_invalid_new)
  qed
qed

text \<open>
  C1 says that no Phone of a Record ever holds a value that breaks the 10-digit rule, in
  either module. In telia.py a Record built by the constructor and \<^verbatim>\<open>add_phone\<close> holds
  the valid phone \<^verbatim>\<open>3805551234\<close>; after \<^verbatim>\<open>edit_phone\<close> to \<^verbatim>\<open>abc\<close>, and after assigning
  \<^verbatim>\<open>abc\<close> to the Phone's value, it holds \<^verbatim>\<open>abc\<close>, which the constructor of the same
  module rejects.
\<close>

theorem telia_edit_phone_stores_rejected_value:
  "telia_add_phone ''3805551234'' (Record_init ''Michael'')
     = (Inr (), \<lparr>name = \<lparr>value = ''Michael''\<rparr>, phones = [\<lparr>value = ''3805551234''\<rparr>]\<rparr>) \<and>
   ten_decimal_digits ''3805551234'' = True \<and>
   telia_edit_phone ''3805551234'' ''abc''
      \<lparr>name = \<lparr>value = ''Michael''\<rparr>, phones = [\<lparr>value = ''3805551234''\<rparr>]\<rparr>
     = (Inr (), \<lparr>name = \<lparr>value = ''Michael''\<rparr>, phones = [\<lparr>value = ''abc''\<rparr>]\<rparr>) \<and>
   telia_Phone_set_value ''abc'' \<lparr>value = ''3805551234''\<rparr> = (Inr (), \<lparr>value = ''abc''\<rparr>) \<and>
   ten_decimal_digits ''abc'' = False \<and>
   phones_accepted \<lparr>name = \<lparr>value = ''Michael''\<rparr>, phones = [\<lparr>value = ''abc''\<rparr>]\<rparr> = False \<and>
   telia_Phone_init ''abc'' = Inl ValidationError"
  by (simp add: telia_add_phone_def telia_Phone_init_eq Record_init_def Field_init_def
      telia_edit_phone_def telia_Phone_set_value_def ten_decimal_digits_def ascii_digit_def
      phones_accepted_def isdigit_def isdigit_char_def)

theorem telia_edit_phone_stores_rejected_value_witness:
  "map value (phones (snd (telia_edit_phone ''3805551234'' ''abc''
      (snd (telia_add_phone ''3805551234'' (Record_init ''Michael''))))))
     = [''abc''] \<and>
   telia_Phone_init ''abc'' = Inl ValidationError"
  using telia_edit_phone_stores_rejected_value by simp


section \<open>Adding and removing phones\<close>

text \<open>
  C6, as the code has it. \<^verbatim>\<open>add_phone\<close> of a value that passes the Phone check, which
  is \<^verbatim>\<open>str.isdigit\<close> and length 10, returns normally and the Record has one more phone,
  with that value, at the end of the list; of a value that fails the check it raises
  the validation error and the Record is unchanged. Every string of exactly ten
  characters \<^verbatim>\<open>0\<close>..\<^verbatim>\<open>9\<close> passes the check and is appended. Both modules.
\<close>

theorem add_phone_appends_or_rejects:
  "(isdigit raw \<and> length raw = 10 \<longrightarrow>
      privo_add_phone raw r = (Inr (), r\<lparr>phones := phones r @ [\<lparr>value = raw\<rparr>]\<rparr>) \<and>
      telia_add_phone raw r = (Inr (), r\<lparr>phones := phones r @ [\<lparr>value = raw\<rparr>]\<rparr>)) \<and>
   (\<not> (isdigit raw \<and> length raw = 10) \<longrightarrow>
      privo_add_phone raw r = (Inl ValidationError, r) \<and>
      telia_add_phone raw r = (Inl ValidationError, r)) \<and>
   (ten_decimal_digits raw \<longrightarrow>
      privo_add_phone raw r = (Inr (), r\<lparr>phones := phones r @ [\<lparr>value = raw\<rparr>]\<rparr>) \<and>
      telia_add_phone raw r = (Inr (), r\<lparr>phones := phones r @ [\<lparr>value = raw\<rparr>]\<rparr>))"
  using ten_decimal_digits_accepted [of raw]
  by (auto simp add: privo_add_phone_def telia_add_phone_def privo_Phone_init_eq
      telia_Phone_init_eq)

theorem add_phone_appends_or_rejects_witness:
  "privo_add_phone ''0509876543''
      \<lparr>name = \<lparr>value = ''Andriy''\<rparr>, phones = [\<lparr>value = ''0981234567''\<rparr>]\<rparr>
     = (Inr (), \<lparr>name = \<lparr>value = ''Andriy''\<rparr>,
                 phones = [\<lparr>value = ''0981234567''\<rparr>, \<lparr>value = ''0509876543''\<rparr>]\<rparr>) \<and>
   telia_add_phone ''0509876543''
      \<lparr>name = \<lparr>value = ''Andriy''\<rparr>, phones = [\<lparr>value = ''0981234567''\<rparr>]\<rparr>
     = (Inr (), \<lparr>name = \<lparr>value = ''Andriy''\<rparr>,
                 phones = [\<lparr>value = ''0981234567''\<rparr>, \<lparr>value = ''0509876543''\<rparr>]\<rparr>) \<and>
   privo_add_phone ''050-987-65''
      \<lparr>name = \<lparr>value = ''Andriy''\<rparr>, phones = [\<lparr>value = ''0981234567''\<rparr>]\<rparr>
     = (Inl ValidationError,
        \<lparr>name = \<lparr>value = ''Andriy''\<rparr>, phones = [\<lparr>value = ''0981234567''\<rparr>]\<rparr>) \<and>
   telia_add_phone ''050-987-65''
      \<lparr>name = \<lparr>value = ''Andriy''\<rparr>, phones = [\<lparr>value = ''0981234567''\<rparr>]\<rparr>
     = (Inl ValidationError,
        \<lparr>name = \<lparr>value = ''Andriy''\<rparr>, phones = [\<lparr>value = ''0981234567''\<rparr>]\<rparr>)"
proof -
  have ok: "isdigit ''0509876543'' \<and> length ''0509876543'' = 10"
    by (simp add: isdigit_def isdigit_char_def)
  have bad: "\<not> (isdigit ''050-987-65'' \<and> length ''050-987-65'' = 10)"
    by (simp add: isdigit_def isdigit_char_def)
  have ten: "ten_decimal_digits ''0509876543''"
    by (simp add: ten_decimal_digits_def ascii_digit_def)
  show ?thesis
    using ok bad ten
      add_phone_appends_or_rejects [of "''0509876543''"
        "\<lparr>name = \<lparr>value = ''Andriy''\<rparr>, phones = [\<lparr>value = ''0981234567''\<rparr>]\<rparr>"]
      add_phone_appends_or_rejects [of "''050-987-65''"
        "\<lparr>name = \<lparr>value = ''Andriy''\<rparr>, phones = [\<lparr>value = ''0981234567''\<rparr>]\<rparr>"]
    by simp
qed

text \<open>
  Ten superscript threes are not ten decimal digits \<^verbatim>\<open>0\<close>..\<^verbatim>\<open>9\<close>, yet \<^verbatim>\<open>add_phone\<close> of
  them, in either module, raises nothing and appends a phone holding them.
\<close>

theorem add_phone_accepts_superscript_digits:
  "ten_decimal_digits
     [CHR 0xB3, CHR 0xB3, CHR 0xB3, CHR 0xB3, CHR 0xB3,
      CHR 0xB3, CHR 0xB3, CHR 0xB3, CHR 0xB3, CHR 0xB3] = False \<and>
   privo_add_phone
     [CHR 0xB3, CHR 0xB3, CHR 0xB3, CHR 0xB3, CHR 0xB3,
      CHR 0xB3, CHR 0xB3, CHR 0xB3, CHR 0xB3, CHR 0xB3]
     \<lparr>name = \<lparr>value = ''Andriy''\<rparr>, phones = [\<lparr>value = ''0981234567''\<rparr>]\<rparr>
     = (Inr (),
        \<lparr>name = \<lparr>value = ''Andriy''\<rparr>,
         phones = [\<lparr>value = ''0981234567''\<rparr>,
                   \<lparr>value = [CHR 0xB3, CHR 0xB3, CHR 0xB3, CHR 0xB3, CHR 0xB3,
                              CHR 0xB3, CHR 0xB3, CHR 0xB3, CHR 0xB3, CHR 0xB3]\<rparr>]\<rparr>) \<and>
   telia_add_phone
     [CHR 0xB3, CHR 0xB3, CHR 0xB3, CHR 0xB3, CHR 0xB3,
      CHR 0xB3, CHR 0xB3, CHR 0xB3, CHR 0xB3, CHR 0xB3]
     \<lparr>name = \<lparr>value = ''Andriy''\<rparr>, phones = [\<lparr>value = ''0981234567''\<rparr>]\<rparr>
     = (Inr (),
        \<lparr>name = \<lparr>value = ''Andriy''\<rparr>,
         phones = [\<lparr>value = ''0981234567''\<rparr>,
                   \<lparr>value = [CHR 0xB3, CHR 0xB3, CHR 0xB3, CHR 0xB3, CHR 0xB3,
                              CHR 0xB3, CHR 0xB3, CHR 0xB3, CHR 0xB3, CHR 0xB3]\<rparr>]\<rparr>)"
  by (simp add: ten_decimal_digits_def ascii_digit_def privo_add_phone_def telia_add_phone_def
      privo_Phone_init_eq telia_Phone_init_eq isdigit_def isdigit_char_def)

lemma filter_no_match: "x \<notin> f ` set xs \<Longrightarrow> filter (\<lambda>p. f p \<noteq> x) xs = xs"
  by (induction xs) auto

lemma count_list_filter_other:
  "f p \<noteq> x \<Longrightarrow> count_list (filter (\<lambda>q. f q \<noteq> x) xs) p = count_list xs p"
  by (induction xs) auto

text \<open>
  C7. \<^verbatim>\<open>remove_phone\<close> never raises and keeps the name. Afterwards no phone has the
  value \<open>raw\<close>; the phones with another value are all still there, as often as before and
  in the same order; and when no phone had the value \<open>raw\<close> the Record is unchanged.
\<close>

theorem remove_phone_removes_all_matches:
  "fst (remove_phone raw r) = Inr () \<and>
   name (snd (remove_phone raw r)) = name r \<and>
   phones (snd (remove_phone raw r)) = filter (\<lambda>p. value p \<noteq> raw) (phones r) \<and>
   raw \<notin> value ` set (phones (snd (remove_phone raw r))) \<and>
   (\<forall>p. value p \<noteq> raw \<longrightarrow>
      count_list (phones (snd (remove_phone raw r))) p = count_list (phones r) p) \<and>
   (raw \<notin> value ` set (phones r) \<longrightarrow> snd (remove_phone raw r) = r)"
  by (auto simp add: remove_phone_def filter_no_match count_list_filter_other)

theorem remove_phone_removes_all_matches_witness:
  "remove_phone ''0981234567''
      \<lparr>name = \<lparr>value = ''Andriy''\<rparr>,
       phones = [\<lparr>value = ''0981234567''\<rparr>, \<lparr>value = ''0509876543''\<rparr>,
                 \<lparr>value = ''0981234567''\<rparr>]\<rparr>
     = (Inr (), \<lparr>name = \<lparr>value = ''Andriy''\<rparr>, phones = [\<lparr>value = ''0509876543''\<rparr>]\<rparr>) \<and>
   remove_phone ''0675554433''
      \<lparr>name = \<lparr>value = ''Andriy''\<rparr>,
       phones = [\<lparr>value = ''0981234567''\<rparr>, \<lparr>value = ''0509876543''\<rparr>]\<rparr>
     = (Inr (), \<lparr>name = \<lparr>value = ''Andriy''\<rparr>,
                 phones = [\<lparr>value = ''0981234567''\<rparr>, \<lparr>value = ''0509876543''\<rparr>]\<rparr>)"
  using
    remove_phone_removes_all_matches [of "''0981234567''"
      "\<lparr>name = \<lparr>value = ''Andriy''\<rparr>,
        phones = [\<lparr>value = ''0981234567''\<rparr>, \<lparr>value = ''0509876543''\<rparr>,
                  \<lparr>value = ''0981234567''\<rparr>]\<rparr>"]
    remove_phone_removes_all_matches [of "''0675554433''"
      "\<lparr>name = \<lparr>value = ''Andriy''\<rparr>,
        phones = [\<lparr>value = ''0981234567''\<rparr>, \<lparr>value = ''0509876543''\<rparr>]\<rparr>"]
  by (simp add: prod_eq_iff Record.equality)



section \<open>Rendering a Record\<close>

lemma join_eq_join_spec: "join sep xs = join_spec sep xs"
  by (induction sep xs rule: join.induct) (simp_all add: join_spec_def)

text \<open>
  C9. The string of a Record is \<^verbatim>\<open>Contact name: \<close>, the name, \<^verbatim>\<open>, phones: \<close> and the phone
  values in list order with \<^verbatim>\<open>; \<close> between neighbours; with no phones nothing follows
  \<^verbatim>\<open>, phones: \<close>.
\<close>

theorem Record_str_format:
  "Record_str r =
     ''Contact name: '' @ value (name r) @ '', phones: ''
       @ join_spec ''; '' (map value (phones r)) \<and>
   (phones r = [] \<longrightarrow> Record_str r = ''Contact name: '' @ value (name r) @ '', phones: '')"
  by (simp add: Record_str_def join_eq_join_spec join_spec_def)

theorem Record_str_format_witness:
  "Record_str \<lparr>name = \<lparr>value = ''Andriy''\<rparr>,
               phones = [\<lparr>value = ''0631112233''\<rparr>, \<lparr>value = ''0509876543''\<rparr>]\<rparr>
     = ''Contact name: Andriy, phones: 0631112233; 0509876543'' \<and>
   Record_str \<lparr>name = \<lparr>value = ''Andriy''\<rparr>, phones = []\<rparr>
     = ''Contact name: Andriy, phones: ''"
  using
    Record_str_format [of "\<lparr>name = \<lparr>value = ''Andriy''\<rparr>,
      phones = [\<lparr>value = ''0631112233''\<rparr>, \<lparr>value = ''0509876543''\<rparr>]\<rparr>"]
    Record_str_format [of "\<lparr>name = \<lparr>value = ''Andriy''\<rparr>, phones = []\<rparr>"]
  by (simp add: join_spec_def)


section \<open>The address book\<close>

text \<open>
  C5. After \<^verbatim>\<open>add_record\<close> of the Record at reference \<open>a\<close>, whose name is \<open>N\<close>, \<^verbatim>\<open>find\<close>
  of \<open>N\<close> returns the reference \<open>a\<close>; after any later method call \<open>m\<close> on that Record,
  what \<^verbatim>\<open>find\<close> of \<open>N\<close> returns is the Record as \<open>m\<close> left it. After \<^verbatim>\<open>add_record\<close> of a
  second Record with the same name, \<^verbatim>\<open>find\<close> of \<open>N\<close> returns the second one.
\<close>

theorem add_record_then_find:
  "AddressBook_find (value (name (s a))) (add_record a s book) = Some a \<and>
   found (value (name (s a))) (add_record a s book) (snd (call_method a m s))
     = Some (snd (m (s a))) \<and>
   (value (name (s a2)) = value (name (s a)) \<longrightarrow>
      AddressBook_find (value (name (s a))) (add_record a2 s (add_record a s book)) = Some a2)"
  by (simp add: AddressBook_find_def add_record_def call_method_def found_def
      split: prod.splits)

theorem add_record_then_find_witness:
  "AddressBook_find ''Andriy'' (add_record 0 (\<lambda>_. Record_init ''Andriy'') Map.empty) = Some 0 \<and>
   found ''Andriy'' (add_record 0 (\<lambda>_. Record_init ''Andriy'') Map.empty)
      (snd (call_method 0 (privo_add_phone ''0981234567'') (\<lambda>_. Record_init ''Andriy'')))
     = Some \<lparr>name = \<lparr>value = ''Andriy''\<rparr>, phones = [\<lparr>value = ''0981234567''\<rparr>]\<rparr> \<and>
   AddressBook_find ''Andriy''
      (add_record 1 (\<lambda>_. Record_init ''Andriy'')
         (add_record 0 (\<lambda>_. Record_init ''Andriy'') Map.empty)) = Some 1"
proof -
  have ok: "isdigit ''0981234567'' \<and> length ''0981234567'' = 10"
    by (simp add: isdigit_def isdigit_char_def)
  show ?thesis
    using ok
      add_record_then_find [where s = "\<lambda>_. Record_init ''Andriy''" and a = 0
        and book = Map.empty and m = "privo_add_phone ''0981234567''" and ?a2.0 = 1]
    by (simp add: Record_init_def Field_init_def privo_add_phone_def privo_Phone_init_eq)
qed

text \<open>
  C8. \<^verbatim>\<open>delete\<close> never raises; afterwards \<^verbatim>\<open>find\<close> of the deleted name returns nothing;
  the book is the old one without that name, and is the old one when the name was not
  in it.
\<close>

theorem delete_then_find:
  "fst (delete n book) = Inr () \<and>
   AddressBook_find n (snd (delete n book)) = None \<and>
   snd (delete n book) = book(n := None) \<and>
   (book n = None \<longrightarrow> snd (delete n book) = book)"
  by (auto simp add: delete_def dict_delitem_def AddressBook_find_def split: option.splits)

theorem delete_then_find_witness:
  "fst (delete ''Maria'' [''Andriy'' \<mapsto> 0, ''Maria'' \<mapsto> 1]) = Inr () \<and>
   AddressBook_find ''Maria'' (snd (delete ''Maria'' [''Andriy'' \<mapsto> 0, ''Maria'' \<mapsto> 1])) = None \<and>
   AddressBook_find ''Andriy'' (snd (delete ''Maria'' [''Andriy'' \<mapsto> 0, ''Maria'' \<mapsto> 1]))
     = Some 0 \<and>
   delete ''Maria'' [''Andriy'' \<mapsto> 0] = (Inr (), [''Andriy'' \<mapsto> 0])"
  using
    delete_then_find [of "''Maria''" "[''Andriy'' \<mapsto> 0, ''Maria'' \<mapsto> 1]"]
    delete_then_find [of "''Maria''" "[''Andriy'' \<mapsto> 0]"]
  by (simp add: prod_eq_iff AddressBook_find_def)

text \<open>
  C10. \<^verbatim>\<open>add_record\<close> and \<^verbatim>\<open>delete\<close> leave every other key of the book as it was: a key
  other than the name of the added Record, or than the deleted name, is bound
  afterwards exactly when it was bound before, to the same Record object, whose state in
  the store neither method touches.
\<close>

theorem add_record_delete_frame:
  "(k \<noteq> value (name (s a)) \<longrightarrow>
      add_record a s book k = book k \<and>
      found k (add_record a s book) s = found k book s) \<and>
   (k \<noteq> n \<longrightarrow>
      snd (delete n book) k = book k \<and>
      found k (snd (delete n book)) s = found k book s)"
  by (auto simp add: delete_def dict_delitem_def add_record_def found_def AddressBook_find_def
      split: option.splits)

theorem add_record_delete_frame_witness:
  "add_record 1 (\<lambda>_. Record_init ''Maria'') [''Andriy'' \<mapsto> 0] ''Andriy'' = Some 0 \<and>
   found ''Andriy'' (add_record 1 (\<lambda>_. Record_init ''Maria'') [''Andriy'' \<mapsto> 0])
      (\<lambda>_. Record_init ''Maria'') = Some (Record_init ''Maria'') \<and>
   snd (delete ''Maria'' [''Andriy'' \<mapsto> 0, ''Maria'' \<mapsto> 1]) ''Andriy'' = Some 0 \<and>
   found ''Andriy'' (snd (delete ''Maria'' [''Andriy'' \<mapsto> 0, ''Maria'' \<mapsto> 1]))
      (\<lambda>_. Record_init ''Maria'') = Some (Record_init ''Maria'')"
  using
    add_record_delete_frame [where k = "''Andriy''" and s = "\<lambda>_. Record_init ''Maria''"
      and a = 1 and book = "[''Andriy'' \<mapsto> 0]" and n = "''Maria''"]
    add_record_delete_frame [where k = "''Andriy''" and s = "\<lambda>_. Record_init ''Maria''"
      and a = 1 and book = "[''Andriy'' \<mapsto> 0, ''Maria'' \<mapsto> 1]" and n = "''Maria''"]
  by (simp add: Record_init_def Field_init_def found_def AddressBook_find_def)

end
